theory Spec2Isabelle
  imports Main "HOL-Library.AList" "HOL-Library.Multiset"
begin

section \<open>The sync server (server.js)\<close>

text \<open>
  JSON values. Numbers are kept as integers: the handlers only test a number for being
  zero. The members of an object are listed in the order in which they are written.
\<close>

datatype json =
    JNull
  | JBool bool
  | JNum int
  | JStr string
  | JArr "json list"
  | JObj "(string \<times> json) list"

text \<open>JavaScript truthiness of a parsed JSON value (the test behind \<open>!data\<close>).\<close>

fun truthy :: "json \<Rightarrow> bool" where
  "truthy JNull = False"
| "truthy (JBool b) = b"
| "truthy (JNum n) = (n \<noteq> 0)"
| "truthy (JStr s) = (s \<noteq> [])"
| "truthy (JArr xs) = True"
| "truthy (JObj kvs) = True"

text \<open>Decimal text of a natural number, as template strings and property keys print it.\<close>

fun decimal :: "nat \<Rightarrow> string" where
  "decimal n =
     (if n < 10 then [char_of (48 + n)]
      else decimal (n div 10) @ [char_of (48 + n mod 10)])"

text \<open>
  The order in which an object holds its properties: first the keys that are array
  indices (the decimal text of a number below \<open>2^32 - 1\<close>) in ascending order, then the
  other keys in the order in which they were defined. A member that is written twice
  keeps its first place and takes its last value.
\<close>

definition isDigit :: "char \<Rightarrow> bool" where
  "isDigit c = (48 \<le> (of_char c :: nat) \<and> (of_char c :: nat) \<le> 57)"

definition numberOf :: "string \<Rightarrow> nat" where
  "numberOf k = foldl (\<lambda>n c. 10 * n + (of_char c - 48)) 0 k"

definition isArrayIndex :: "string \<Rightarrow> bool" where
  "isArrayIndex k =
     (k \<noteq> [] \<and> list_all isDigit k \<and> (k = ''0'' \<or> hd k \<noteq> CHR ''0'') \<and>
      numberOf k < 4294967295)"

definition ownProperties :: "(string \<times> 'a) list \<Rightarrow> (string \<times> 'a) list" where
  "ownProperties kvs =
     (let ps = foldl (\<lambda>ps (k, v). AList.update k v ps) [] kvs
      in sort_key (\<lambda>(k, v). numberOf k) (filter (\<lambda>(k, v). isArrayIndex k) ps) @
         filter (\<lambda>(k, v). \<not> isArrayIndex k) ps)"

text \<open>
  \<open>JSON.parse\<close>, which \<open>express.json\<close> applies to the body of a request: the value
  that the text denotes, every object holding its properties in that order.
\<close>

primrec JSON_parse :: "json \<Rightarrow> json" where
  "JSON_parse JNull = JNull"
| "JSON_parse (JBool b) = JBool b"
| "JSON_parse (JNum n) = JNum n"
| "JSON_parse (JStr s) = JStr s"
| "JSON_parse (JArr xs) = JArr (map JSON_parse xs)"
| "JSON_parse (JObj kvs) = JObj (ownProperties (map (map_prod id JSON_parse) kvs))"

text \<open>
  The own enumerable properties that the object spread \<open>{...data}\<close> copies: the
  members of an object, the indexed elements of an array, the indexed characters of a
  string, and nothing for the other values.
\<close>

fun spread :: "json \<Rightarrow> (string \<times> json) list" where
  "spread (JObj kvs) = kvs"
| "spread (JArr xs) = map (\<lambda>(i, x). (decimal i, x)) (enumerate 0 xs)"
| "spread (JStr s) = map (\<lambda>(i, c). (decimal i, JStr [c])) (enumerate 0 s)"
| "spread v = []"

text \<open>\<open>/^[a-zA-Z0-9_-]{3,50}$/.test(id)\<close>\<close>

definition idChar :: "char \<Rightarrow> bool" where
  "idChar c =
     (let n = (of_char c :: nat)
      in (97 \<le> n \<and> n \<le> 122) \<or> (65 \<le> n \<and> n \<le> 90) \<or> (48 \<le> n \<and> n \<le> 57)
         \<or> n = 95 \<or> n = 45)"

definition isValidId :: "string \<Rightarrow> bool" where
  "isValidId ident = (3 \<le> length ident \<and> length ident \<le> 50 \<and> list_all idChar ident)"

text \<open>
  The data directory as a map from file path to the JSON value a file holds
  (\<open>JSON.parse\<close> of what \<open>JSON.stringify\<close> wrote). A missing file reads as
  \<open>ENOENT\<close>; writing a file replaces it.
\<close>

type_synonym fs = "string \<Rightarrow> json option"

definition filePath :: "string \<Rightarrow> string" where
  "filePath ident = ''data/'' @ ident @ ''.json''"

text \<open>
  A response: its HTTP status and JSON body. \<open>SaveOk ident savedAt\<close> and
  \<open>LoadOk data loadedAt\<close> are the two \<open>success: true\<close> bodies (status 200);
  \<open>Fail status message\<close> is \<open>{success: false, message}\<close>.
\<close>

datatype response =
    SaveOk string string
  | LoadOk json string
  | Fail nat string

fun status :: "response \<Rightarrow> nat" where
  "status (SaveOk i t) = 200"
| "status (LoadOk d t) = 200"
| "status (Fail n m) = n"

fun success :: "response \<Rightarrow> bool" where
  "success (SaveOk i t) = True"
| "success (LoadOk d t) = True"
| "success (Fail n m) = False"

text \<open>
  \<open>apiRouter.post('/save')\<close>. The request body carries \<open>id\<close> and \<open>data\<close>, each
  possibly absent, \<open>data\<close> as the body has it written; the handler gets it parsed.
  \<open>now\<close> is \<open>new Date().toISOString()\<close>.
\<close>

definition save :: "fs \<Rightarrow> string \<Rightarrow> string option \<Rightarrow> json option \<Rightarrow> fs \<times> response" where
  "save files now ident data =
     (case (ident, map_option JSON_parse data) of
        (Some i, Some d) \<Rightarrow>
          if i = [] \<or> \<not> truthy d then
            (files, Fail 400 ''ID and data are required'')
          else if \<not> isValidId i then
            (files, Fail 400 ''Invalid ID format. Use only letters, numbers, hyphens, and underscores (3-50 characters)'')
          else
            let saveData = JObj (AList.update ''savedAt'' (JStr now) (spread d))
            in (files(filePath i \<mapsto> saveData), SaveOk i now)
      | _ \<Rightarrow> (files, Fail 400 ''ID and data are required''))"

text \<open>\<open>apiRouter.get('/load/:id')\<close>\<close>

definition load :: "fs \<Rightarrow> string \<Rightarrow> string \<Rightarrow> response" where
  "load files now ident =
     (if \<not> isValidId ident then Fail 400 ''Invalid ID format''
      else case files (filePath ident) of
             None \<Rightarrow> Fail 404 ''ID not found''
           | Some d \<Rightarrow> LoadOk d now)"

section \<open>Dates (the built-in \<open>Date\<close> as the client uses it)\<close>

text \<open>
  A time is a number of milliseconds since the epoch; an ISO string written by
  \<open>toISOString\<close> is identified with the time it denotes. A \<open>Date\<close> object holds a
  time value or \<open>NaN\<close> (\<open>None\<close>: an invalid date). \<open>TimeClip\<close> is the range check
  of ECMAScript: a time beyond 8.64e15 ms from the epoch is not a date.
\<close>

type_synonym time = int

type_synonym date = "int option"

datatype error = RangeError

definition msPerDay :: int where
  "msPerDay = 86400000"

definition maxTime :: int where
  "maxTime = 8640000000000000"

definition TimeClip :: "int \<Rightarrow> date" where
  "TimeClip t = (if \<bar>t\<bar> \<le> maxTime then Some t else None)"

text \<open>\<open>new Date(v)\<close> for \<open>v\<close> a stored ISO string or \<open>null\<close>; \<open>null\<close> converts to 0.\<close>

definition newDate :: "time option \<Rightarrow> date" where
  "newDate v = (case v of None \<Rightarrow> Some 0 | Some t \<Rightarrow> TimeClip t)"

text \<open>
  The local time zone as \<open>Date\<close> uses it. \<open>LocalTZA z t isUTC\<close> is the offset of
  local time from \<open>UTC\<close> in milliseconds, at the \<open>UTC\<close> time \<open>t\<close> when \<open>isUTC\<close>
  holds and at the local time \<open>t\<close> otherwise; the offset changes where the zone's
  clocks are changed (daylight saving). The calendar is given as the function that maps
  a day number to the day number of the first day of the same month.
\<close>

record zone =
  LocalTZA :: "int \<Rightarrow> bool \<Rightarrow> int"
  firstOfMonth :: "int \<Rightarrow> int"

definition LocalTime :: "zone \<Rightarrow> int \<Rightarrow> int" where
  "LocalTime z t = t + LocalTZA z t True"

definition UTC :: "zone \<Rightarrow> int \<Rightarrow> int" where
  "UTC z t = t - LocalTZA z t False"

definition Day :: "int \<Rightarrow> int" where
  "Day t = t div msPerDay"

definition TimeWithinDay :: "int \<Rightarrow> int" where
  "TimeWithinDay t = t mod msPerDay"

definition MakeDate :: "int \<Rightarrow> int \<Rightarrow> int" where
  "MakeDate day tm = day * msPerDay + tm"

text \<open>
  \<open>MakeDay(YearFromTime(t), MonthFromTime(t), dt)\<close> for a local time \<open>t\<close>: the day
  number of the first of the month of \<open>t\<close>, plus \<open>dt - 1\<close>; \<open>dt\<close> may lie outside the
  month.
\<close>

definition MakeDay :: "zone \<Rightarrow> int \<Rightarrow> int \<Rightarrow> int" where
  "MakeDay z t dt = firstOfMonth z (Day t) + dt - 1"

text \<open>\<open>d.getDate()\<close>: the day of the month in local time (\<open>NaN\<close> for an invalid date).\<close>

definition getDate :: "zone \<Rightarrow> date \<Rightarrow> int option" where
  "getDate z d =
     map_option (\<lambda>t. Day (LocalTime z t) - firstOfMonth z (Day (LocalTime z t)) + 1) d"

text \<open>
  \<open>d.setDate(dt)\<close>: the day of the month of the local time is replaced, the time
  within the day is kept, and the result is converted back and range-checked.
\<close>

definition setDate :: "zone \<Rightarrow> date \<Rightarrow> int option \<Rightarrow> date" where
  "setDate z d dt =
     (case (d, dt) of
        (Some t, Some n) \<Rightarrow>
          TimeClip (UTC z (MakeDate (MakeDay z (LocalTime z t) n) (TimeWithinDay (LocalTime z t))))
      | _ \<Rightarrow> None)"

text \<open>
  The Gregorian calendar: the day of the month of a day number (days since 1 January
  1970), by the usual computation on 400-year eras that start on 1 March.
\<close>

definition dayOfMonth :: "int \<Rightarrow> int" where
  "dayOfMonth z =
     (let doe = (z + 719468) mod 146097;
          yoe = (doe - doe div 1460 + doe div 36524 - doe div 146096) div 365;
          doy = doe - (365 * yoe + yoe div 4 - yoe div 100);
          mp = (5 * doy + 2) div 153
      in doy - (153 * mp + 2) div 5 + 1)"

definition gregorian :: "int \<Rightarrow> int" where
  "gregorian z = z - dayOfMonth z + 1"

definition utcZone :: zone where
  "utcZone = \<lparr>LocalTZA = (\<lambda>t isUTC. 0), firstOfMonth = gregorian\<rparr>"


text \<open>\<open>toISOString\<close> throws a \<open>RangeError\<close> on an invalid date.\<close>

definition toISOString :: "date \<Rightarrow> error + time" where
  "toISOString d = (case d of None \<Rightarrow> Inl RangeError | Some t \<Rightarrow> Inr t)"

section \<open>The client (the React component \<open>ChecklistApp\<close>)\<close>

subsection \<open>Records\<close>

datatype frequency = FreqNone | Daily | Weekly | Custom

text \<open>
  An item. Active and archived items are objects of one shape; \<open>completedAt\<close> is
  absent on an active item. The fields \<open>id\<close> and \<open>notes\<close> carry a prime, the
  names being taken in the logic; the fields of a checklist that an item has too carry
  the prefix \<open>cl\<close>.
\<close>

record item =
  id' :: string
  checklistId :: string
  title :: string
  notes' :: string
  dueDate :: "time option"
  repeatFrequency :: frequency
  customInterval :: "int option"
  reminderRepeat :: int
  autoDismissAfter :: "int option"
  completed :: bool
  order :: int
  createdAt :: time
  updatedAt :: time
  completedAt :: "time option"

record checklist =
  clId :: string
  name :: string
  color :: string
  clOrder :: "int option"
  clCreatedAt :: time

text \<open>
  What the item form submits: the title and notes as typed, the other fields as
  \<open>handleSubmit\<close> parsed them (\<open>None\<close> for an empty input or a \<open>NaN\<close>).
\<close>

record itemData =
  titleF :: string
  notesF :: string
  dueDateF :: "time option"
  repeatFrequencyF :: frequency
  customIntervalF :: "int option"
  reminderRepeatF :: "int option"
  autoDismissAfterF :: "int option"

record notification =
  ntitle :: string
  body :: string
  tag :: string

text \<open>
  What the functions created by one rendering of the component see of the state. The
  constants \<open>items\<close> and \<open>reminderIntervals\<close> in the body of a function hold the
  values of the rendering that created it, also when the function runs later, from a
  timer; an update such as \<open>setItems(prev => ...)\<close> applies to the current state.
\<close>

record render =
  seenItems :: "item list"
  seenReminderIntervals :: "string \<Rightarrow> nat option"

text \<open>
  A live timer is the callback it will run. \<open>DueCallback\<close> is the \<open>setTimeout\<close> armed
  for the due time, \<open>RepeatCallback\<close> the \<open>setInterval\<close> with its counter
  \<open>repeatCount\<close>, \<open>AutoDismissCallback\<close> the \<open>setTimeout\<close> of the auto-dismiss. Each
  closes over the rendering whose \<open>setupReminder\<close> was called, and over the item it was
  called with.
\<close>

datatype callback =
    DueCallback render item
  | RepeatCallback render item int
  | AutoDismissCallback render item

text \<open>
  The component state (\<open>useState\<close>) together with what the browser holds for it: the
  live timers by handle with their delay in milliseconds, the next handle (handles are
  positive, hence truthy), the notifications shown so far, whether notifications are
  permitted, and the local time zone. The object stores of IndexedDB
  mirror \<open>checklists\<close>, \<open>items\<close> and \<open>archive\<close>: \<open>add\<close> is rejected exactly when
  the key is already stored, \<open>put\<close> and \<open>delete\<close> go through.
\<close>

record state =
  checklists :: "checklist list"
  items :: "item list"
  archive :: "item list"
  selectedChecklist :: string
  editingItem :: "item option"
  draggedItem :: "item option"
  reminderIntervals :: "string \<Rightarrow> nat option"
  timers :: "nat \<Rightarrow> (callback \<times> int) option"
  nextTimerId :: nat
  notifications :: "notification list"
  permission :: bool
  tz :: zone

text \<open>
  What a function of the current rendering sees. A handler that the page calls (a
  click, a submitted form, a drop) belongs to the rendering of the current state.
\<close>

definition rendered :: "state \<Rightarrow> render" where
  "rendered s = \<lparr>seenItems = items s, seenReminderIntervals = reminderIntervals s\<rparr>"

subsection \<open>Helpers of the language\<close>

text \<open>\<open>s || d\<close> on strings, and \<open>n || null\<close> on numbers (0 and \<open>NaN\<close> are falsy).\<close>

definition strOr :: "string \<Rightarrow> string \<Rightarrow> string" where
  "strOr s d = (if s = [] then d else s)"

definition numOrNull :: "int option \<Rightarrow> int option" where
  "numOrNull n = (case n of None \<Rightarrow> None | Some k \<Rightarrow> if k = 0 then None else Some k)"

definition numOr :: "int option \<Rightarrow> int \<Rightarrow> int" where
  "numOr n d = (case numOrNull n of None \<Rightarrow> d | Some k \<Rightarrow> k)"

text \<open>
  \<open>parseInt(n)\<close> for a number \<open>n\<close> that is an integer: \<open>parseInt\<close> reads the
  digits at the head of \<open>String(n)\<close>. Below \<open>10^21\<close> that string is the decimal
  text of \<open>n\<close>; from \<open>10^21\<close> on it is in exponent notation (\<open>1e+21\<close>,
  \<open>1.2e+21\<close>) with the fewest digits that still denote the number, and \<open>parseInt\<close>
  reads its first digit only. That is the first digit of \<open>n\<close>, or the next one where
  \<open>n\<close> is the number nearest to the round value above it (\<open>String\<close> of
  99999999999999991611392 is \<open>1e+23\<close>). \<open>toNumber\<close> rounds a natural number
  (below \<open>2^1024\<close>) to the nearest number of 53 significant bits, a tie to the even
  one.
\<close>

fun digits10 :: "nat \<Rightarrow> nat" where
  "digits10 n = (if n < 10 then 1 else Suc (digits10 (n div 10)))"

fun bits :: "nat \<Rightarrow> nat" where
  "bits n = (if n = 0 then 0 else Suc (bits (n div 2)))"

declare digits10.simps [simp del] bits.simps [simp del]

definition toNumber :: "nat \<Rightarrow> nat" where
  "toNumber x =
     (if bits x \<le> 53 then x
      else
        let e = bits x - 53;
            q = x div 2 ^ e;
            r = x mod 2 ^ e
        in if 2 * r > 2 ^ e \<or> (2 * r = 2 ^ e \<and> odd q) then (q + 1) * 2 ^ e else q * 2 ^ e)"

definition leadingDigit :: "nat \<Rightarrow> nat" where
  "leadingDigit v =
     (let p = 10 ^ (digits10 v - 1);
          d = v div p
      in if toNumber ((d + 1) * p) = v then (if d = 9 then 1 else d + 1) else d)"

definition parseInt :: "int \<Rightarrow> int" where
  "parseInt n =
     (if \<bar>n\<bar> < 10 ^ 21 then n else sgn n * int (leadingDigit (nat \<bar>n\<bar>)))"

text \<open>
  \<open>String.prototype.trim\<close>, for characters read as code units below 256: tab, line
  feed, vertical tab, form feed, carriage return, space and no-break space.
\<close>

definition isWhiteSpace :: "char \<Rightarrow> bool" where
  "isWhiteSpace c = ((of_char c :: nat) \<in> {9, 10, 11, 12, 13, 32, 160})"

definition trim :: "string \<Rightarrow> string" where
  "trim s = rev (dropWhile isWhiteSpace (rev (dropWhile isWhiteSpace s)))"




text \<open>\<open>xs.reduce((max, item) => Math.max(max, item.order || 0), 0)\<close>\<close>

definition maxOrder :: "item list \<Rightarrow> int" where
  "maxOrder xs = foldl (\<lambda>m i. max m (order i)) 0 xs"

subsection \<open>Recurrence\<close>

text \<open>
  \<open>calculateNextDueDate\<close>. The result is \<open>Inr None\<close> for \<open>null\<close>, \<open>Inr (Some t)\<close>
  for the ISO string of \<open>t\<close>, and \<open>Inl RangeError\<close> where \<open>toISOString\<close> throws.
\<close>

definition calculateNextDueDate ::
  "zone \<Rightarrow> time option \<Rightarrow> frequency \<Rightarrow> int option \<Rightarrow> error + time option" where
  "calculateNextDueDate z currentDueDate freq interval =
     (let current = newDate currentDueDate in
      case freq of
        Daily \<Rightarrow>
          map_sum id Some
            (toISOString (setDate z current (map_option (\<lambda>g. g + 1) (getDate z current))))
      | Weekly \<Rightarrow>
          map_sum id Some
            (toISOString (setDate z current (map_option (\<lambda>g. g + 7) (getDate z current))))
      | Custom \<Rightarrow>
          (case numOrNull interval of
             Some n \<Rightarrow>
               map_sum id Some
                 (toISOString
                    (setDate z current (map_option (\<lambda>g. g + parseInt n) (getDate z current))))
           | None \<Rightarrow> map_sum id Some (toISOString current))
      | FreqNone \<Rightarrow> Inr None)"

subsection \<open>Notifications and timers\<close>

text \<open>\<open>showNotification\<close> shows nothing unless permission was granted.\<close>

definition showNotification :: "state \<Rightarrow> notification \<Rightarrow> state" where
  "showNotification s n =
     (if permission s then s\<lparr>notifications := notifications s @ [n]\<rparr> else s)"

text \<open>\<open>setTimeout\<close> and \<open>setInterval\<close> hand out the next handle.\<close>

definition setTimer :: "state \<Rightarrow> callback \<Rightarrow> int \<Rightarrow> state" where
  "setTimer s cb delay =
     s\<lparr>timers := (timers s)(nextTimerId s \<mapsto> (cb, delay)), nextTimerId := Suc (nextTimerId s)\<rparr>"

definition clearInterval :: "state \<Rightarrow> nat \<Rightarrow> state" where
  "clearInterval s h = s\<lparr>timers := (timers s)(h := None)\<rparr>"

text \<open>\<open>setupReminder\<close> of the rendering \<open>r\<close>, called at time \<open>now\<close>.\<close>

definition setupReminder :: "render \<Rightarrow> state \<Rightarrow> item \<Rightarrow> time \<Rightarrow> state" where
  "setupReminder r s it now =
     (case dueDate it of
        None \<Rightarrow> s
      | Some dueTime \<Rightarrow>
          if dueTime \<le> now then
            showNotification s
              \<lparr>ntitle = ''Overdue: '' @ title it,
               body = strOr (notes' it) ''This item is overdue'',
               tag = id' it\<rparr>
          else
            let timerId = nextTimerId s;
                s1 = setTimer s (DueCallback r it) (dueTime - now)
            in s1\<lparr>reminderIntervals := (reminderIntervals s1)(id' it \<mapsto> timerId)\<rparr>)"

text \<open>
  The "Clear reminder" block shared by \<open>toggleItemComplete\<close> and \<open>deleteItem\<close>;
  \<open>intervals\<close> is the registry \<open>reminderIntervals\<close> that the block reads.
\<close>

definition clearReminder :: "(string \<Rightarrow> nat option) \<Rightarrow> state \<Rightarrow> string \<Rightarrow> state" where
  "clearReminder intervals s itemId =
     (case intervals itemId of
        None \<Rightarrow> s
      | Some h \<Rightarrow>
          (clearInterval s h)\<lparr>reminderIntervals := (reminderIntervals s)(itemId := None)\<rparr>)"

subsection \<open>Item operations\<close>

text \<open>
  \<open>createOrUpdateItem\<close>, called at time \<open>now\<close>; \<open>newId\<close> is what \<open>generateId()\<close>
  returns. When the store rejects the \<open>add\<close> the handler logs the error and changes
  nothing.
\<close>

definition createOrUpdateItem :: "state \<Rightarrow> itemData \<Rightarrow> time \<Rightarrow> string \<Rightarrow> state" where
  "createOrUpdateItem s itemData now newId =
     (let isEditing = (editingItem s \<noteq> None);
          checklistItems = filter (\<lambda>i. checklistId i = selectedChecklist s) (items s);
          it = \<lparr>id' = (case editingItem s of Some e \<Rightarrow> id' e | None \<Rightarrow> newId),
                checklistId = selectedChecklist s,
                title = titleF itemData,
                notes' = strOr (notesF itemData) [],
                dueDate = dueDateF itemData,
                repeatFrequency = repeatFrequencyF itemData,
                customInterval = numOrNull (customIntervalF itemData),
                reminderRepeat = numOr (reminderRepeatF itemData) 1,
                autoDismissAfter = numOrNull (autoDismissAfterF itemData),
                completed = (case editingItem s of Some e \<Rightarrow> completed e | None \<Rightarrow> False),
                order = (case editingItem s of Some e \<Rightarrow> order e
                         | None \<Rightarrow> maxOrder checklistItems + 1),
                createdAt = (case editingItem s of Some e \<Rightarrow> createdAt e | None \<Rightarrow> now),
                updatedAt = now,
                completedAt = None\<rparr>
      in if \<not> isEditing \<and> id' it \<in> set (map id' (items s)) then s
         else
           let s1 = s\<lparr>items :=
                      (if isEditing then map (\<lambda>i. if id' i = id' it then it else i) (items s)
                       else items s @ [it])\<rparr>;
               s2 = (if dueDate it \<noteq> None then setupReminder (rendered s) s1 it now else s1)
           in s2\<lparr>editingItem := None\<rparr>)"

text \<open>
  \<open>handleSubmit\<close> of \<open>NewItemModal\<close>, the caller of \<open>createOrUpdateItem\<close>
  (\<open>onSave\<close>): a title that trims to the empty string is not submitted.
\<close>

definition handleSubmit :: "state \<Rightarrow> itemData \<Rightarrow> time \<Rightarrow> string \<Rightarrow> state" where
  "handleSubmit s formData now newId =
     (if trim (titleF formData) \<noteq> [] then
        createOrUpdateItem s (formData\<lparr>titleF := trim (titleF formData)\<rparr>) now newId
      else s)"

text \<open>
  The buttons of the page: "add item" on a checklist card opens the form for that
  checklist, "edit" on an item opens it for the item.
\<close>

definition onAddItem :: "state \<Rightarrow> string \<Rightarrow> state" where
  "onAddItem s c = s\<lparr>selectedChecklist := c\<rparr>"

definition onEdit :: "state \<Rightarrow> item \<Rightarrow> state" where
  "onEdit s it = s\<lparr>editingItem := Some it, selectedChecklist := checklistId it\<rparr>"

text \<open>
  \<open>toggleItemComplete\<close> of the rendering \<open>r\<close>. \<open>confirmed\<close> is the answer to the
  \<open>confirm\<close> dialog shown for an item that is not due yet. An exception (a rejected
  \<open>add\<close>, a \<open>RangeError\<close>) leaves the state as it is at that point.
\<close>

definition toggleItemComplete ::
  "render \<Rightarrow> state \<Rightarrow> string \<Rightarrow> time \<Rightarrow> string \<Rightarrow> bool \<Rightarrow> state" where
  "toggleItemComplete r s itemId now newId confirmed =
     (case find (\<lambda>i. id' i = itemId) (seenItems r) of
        None \<Rightarrow> s
      | Some it \<Rightarrow>
          if \<not> completed it \<and> (case dueDate it of Some dueTime \<Rightarrow> dueTime > now \<and> \<not> confirmed
                                  | None \<Rightarrow> False)
          then s
          else if completed it then s
          else
            let completedItem = it\<lparr>completed := True, completedAt := Some now\<rparr>
            in if itemId \<in> set (map id' (archive s)) then s
               else
                 let s1 = s\<lparr>items := filter (\<lambda>i. id' i \<noteq> itemId) (items s),
                            archive := archive s @ [completedItem]\<rparr>;
                     s2 = clearReminder (seenReminderIntervals r) s1 itemId
                 in if repeatFrequency it \<noteq> FreqNone then
                      (case calculateNextDueDate (tz s) (dueDate it) (repeatFrequency it)
                              (customInterval it) of
                         Inl e \<Rightarrow> s2
                       | Inr None \<Rightarrow> s2
                       | Inr (Some nextDueDate) \<Rightarrow>
                           let newItem = it\<lparr>id' := newId, dueDate := Some nextDueDate,
                                            completed := False, createdAt := now,
                                            updatedAt := now\<rparr>
                           in if newId \<in> set (map id' (items s2)) then s2
                              else setupReminder r (s2\<lparr>items := items s2 @ [newItem]\<rparr>) newItem now)
                    else s2)"

text \<open>The checkbox of an item shown (\<open>onToggleComplete\<close>).\<close>

definition onToggleComplete :: "state \<Rightarrow> string \<Rightarrow> time \<Rightarrow> string \<Rightarrow> bool \<Rightarrow> state" where
  "onToggleComplete s itemId now newId confirmed =
     toggleItemComplete (rendered s) s itemId now newId confirmed"

definition deleteItem :: "state \<Rightarrow> string \<Rightarrow> state" where
  "deleteItem s itemId =
     clearReminder (reminderIntervals s)
       (s\<lparr>items := filter (\<lambda>i. id' i \<noteq> itemId) (items s)\<rparr>) itemId"

text \<open>\<open>deleteChecklist\<close>; \<open>confirmed\<close> is the answer to its \<open>confirm\<close> dialog.\<close>

definition deleteChecklist :: "state \<Rightarrow> string \<Rightarrow> bool \<Rightarrow> state" where
  "deleteChecklist s cid confirmed =
     (if \<not> confirmed then s
      else
        let checklistItems = filter (\<lambda>i. checklistId i = cid) (items s);
            s1 = s\<lparr>checklists := filter (\<lambda>cl. clId cl \<noteq> cid) (checklists s),
                   items := filter (\<lambda>i. checklistId i \<noteq> cid) (items s),
                   archive := filter (\<lambda>i. checklistId i \<noteq> cid) (archive s)\<rparr>
        in foldl (\<lambda>st i. clearReminder (reminderIntervals st) st (id' i)) s1 checklistItems)"

subsection \<open>Timer callbacks\<close>

definition decimalInt :: "int \<Rightarrow> string" where
  "decimalInt i = (if i < 0 then ''-'' @ decimal (nat (- i)) else decimal (nat i))"

text \<open>
  The event loop runs the callback of the live timer \<open>h\<close> at time \<open>now\<close>; a handle
  that is not live runs nothing. A timeout is gone once it ran, an interval stays until
  it is cleared. \<open>newId\<close> and \<open>confirmed\<close> are for the \<open>toggleItemComplete\<close> the
  auto-dismiss may call; the auto-dismiss looks the item up in the \<open>items\<close> of its
  rendering and calls the \<open>toggleItemComplete\<close> of that rendering.
\<close>

definition fireTimer :: "state \<Rightarrow> nat \<Rightarrow> time \<Rightarrow> string \<Rightarrow> bool \<Rightarrow> state" where
  "fireTimer s h now newId confirmed =
     (case timers s h of
        None \<Rightarrow> s
      | Some (DueCallback r it, delay) \<Rightarrow>
          let s1 = showNotification (clearInterval s h)
                     \<lparr>ntitle = ''Due: '' @ title it,
                      body = strOr (notes' it) ''This item is due now'',
                      tag = id' it\<rparr>
          in if reminderRepeat it > 1 then
               let repeatInterval = nextTimerId s1;
                   s2 = setTimer s1 (RepeatCallback r it 1) (5 * 60 * 1000)
               in s2\<lparr>reminderIntervals := (reminderIntervals s2)(id' it \<mapsto> repeatInterval)\<rparr>
             else s1
      | Some (RepeatCallback r it repeatCount, delay) \<Rightarrow>
          if repeatCount \<ge> reminderRepeat it then
            let s1 = clearInterval s h
            in (case numOrNull (autoDismissAfter it) of
                  Some m \<Rightarrow> setTimer s1 (AutoDismissCallback r it) (m * 60 * 1000)
                | None \<Rightarrow> s1)
          else
            let s1 = showNotification s
                       \<lparr>ntitle = ''Reminder: '' @ title it,
                        body = strOr (notes' it)
                                 (''Reminder '' @ decimalInt (repeatCount + 1) @ '' of ''
                                    @ decimalInt (reminderRepeat it)),
                        tag = id' it\<rparr>
            in s1\<lparr>timers := (timers s1)(h \<mapsto> (RepeatCallback r it (repeatCount + 1), delay))\<rparr>
      | Some (AutoDismissCallback r it, delay) \<Rightarrow>
          let s1 = clearInterval s h
          in (case find (\<lambda>i. id' i = id' it) (seenItems r) of
                Some currentItem \<Rightarrow>
                  if \<not> completed currentItem
                  then toggleItemComplete r s1 (id' it) now newId confirmed
                  else s1
              | None \<Rightarrow> s1))"

text \<open>
  A run of the event loop: the timers named by the events fire one after the other,
  each event giving the handle, the time, and the id and dialog answer a completion
  would use.
\<close>

fun fireAll :: "state \<Rightarrow> (nat \<times> time \<times> string \<times> bool) list \<Rightarrow> state" where
  "fireAll s [] = s"
| "fireAll s ((h, now, newId, confirmed) # evs) = fireAll (fireTimer s h now newId confirmed) evs"


subsection \<open>Drag and drop of items\<close>


text \<open>
  \<open>handleItemDrop\<close>, called at time \<open>now\<close> with the item dropped on (if any) and the
  checklist of the drop zone (if any). Its two branches are the next two definitions.
\<close>








subsection \<open>Notions used to state the theorems\<close>


text \<open>
  The instant at which the local clock shows, \<open>n\<close> calendar days after the local day
  of \<open>D\<close>, the time of day it shows at \<open>D\<close>.
\<close>

definition addDays :: "zone \<Rightarrow> time \<Rightarrow> int \<Rightarrow> time" where
  "addDays z D n = UTC z (LocalTime z D + n * msPerDay)"











subsection \<open>Concrete scenarios\<close>

text \<open>A state with no checklists, items, timers or notifications, in the zone \<open>UTC\<close>
  with the Gregorian calendar.\<close>

definition initialState :: state where
  "initialState =
     \<lparr>checklists = [], items = [], archive = [], selectedChecklist = [],
      editingItem = None, draggedItem = None,
      reminderIntervals = Map.empty, timers = Map.empty, nextTimerId = 1,
      notifications = [], permission = True, tz = utcZone\<rparr>"

text \<open>A submitted form with the given title, due time, repeat rule and reminder count.\<close>

definition exampleForm :: "string \<Rightarrow> time option \<Rightarrow> frequency \<Rightarrow> int \<Rightarrow> itemData" where
  "exampleForm t d f r =
     \<lparr>titleF = t, notesF = [], dueDateF = d, repeatFrequencyF = f, customIntervalF = None,
      reminderRepeatF = Some r, autoDismissAfterF = None\<rparr>"

text \<open>The item that form creates at time 0 in checklist \<open>c\<close> with the given id and position.\<close>

definition exampleItem ::
  "string \<Rightarrow> string \<Rightarrow> time option \<Rightarrow> frequency \<Rightarrow> int \<Rightarrow> int \<Rightarrow> item" where
  "exampleItem i t d f r pos =
     \<lparr>id' = i, checklistId = ''c'', title = t, notes' = [], dueDate = d, repeatFrequency = f,
      customInterval = None, reminderRepeat = r, autoDismissAfter = None, completed = False,
      order = pos, createdAt = 0, updatedAt = 0, completedAt = None\<rparr>"


text \<open>
  An item "A" due at time 1000 is created at time 0 in checklist \<open>c\<close>, and its title
  is edited to "B" at time 10.
\<close>

definition createdState :: state where
  "createdState =
     createOrUpdateItem (onAddItem initialState ''c'')
       (exampleForm ''A'' (Some 1000) FreqNone 1) 0 ''i1''"

definition editedState :: state where
  "editedState =
     createOrUpdateItem (onEdit createdState (exampleItem ''i1'' ''A'' (Some 1000) FreqNone 1 1))
       (exampleForm ''B'' (Some 1000) FreqNone 1) 10 ''i2''"

section \<open>Theorems\<close>

subsection \<open>The sync server\<close>

lemma isValidId_Nil: "\<not> isValidId []"
  by (simp add: isValidId_def)

lemma truthy_JSON_parse: "truthy (JSON_parse d) = truthy d"
  by (cases d) simp_all

lemma JSON_parse_examples:
  "JSON_parse (JObj [(''b'', JNum 1), (''10'', JNum 2), (''9'', JNum 3), (''a'', JNum 4),
                     (''b'', JNum 5), (''01'', JNum 6)])
     = JObj [(''9'', JNum 3), (''10'', JNum 2), (''b'', JNum 5), (''a'', JNum 4), (''01'', JNum 6)] \<and>
   JSON_parse (JObj [(''items'', JArr [JObj [(''title'', JStr ''A''), (''id'', JStr ''i1'')]]),
                     (''checklists'', JArr [])])
     = JObj [(''items'', JArr [JObj [(''title'', JStr ''A''), (''id'', JStr ''i1'')]]),
             (''checklists'', JArr [])]"
  by (simp add: ownProperties_def isArrayIndex_def isDigit_def numberOf_def)

text \<open>
  Claim C8. An identifier is accepted by save and load exactly when it matches
  \<open>^[A-Za-z0-9_-]{3,50}$\<close> (\<open>isValidId\<close>): load answers 400 exactly for the
  identifiers that do not match, and save of a payload that is present succeeds exactly
  for those that match. For an identifier that does not match, both answer with status
  400 and \<open>success: false\<close>, whatever the payload, and save leaves every file as it
  was.
\<close>

theorem sync_identifier_validation:
  "(status (load files now i) = 400) = (\<not> isValidId i) \<and>
   (truthy p \<longrightarrow> success (snd (save files now (Some i) (Some p))) = isValidId i) \<and>
   (\<not> isValidId i \<longrightarrow>
      status (snd (save files now (Some i) d)) = 400 \<and>
      \<not> success (snd (save files now (Some i) d)) \<and>
      fst (save files now (Some i) d) = files \<and>
      \<not> success (load files now i))"
  by (auto simp: save_def load_def isValidId_Nil truthy_JSON_parse split: option.splits)

theorem sync_identifier_validation_witness:
  "\<not> isValidId ''a b'' \<and> isValidId ''list_01'' \<and> truthy (JObj []) \<and>
   status (load Map.empty ''t'' ''a b'') = 400 \<and>
   status (snd (save Map.empty ''t'' (Some ''a b'') (Some (JObj [])))) = 400 \<and>
   fst (save Map.empty ''t'' (Some ''a b'') (Some (JObj []))) = Map.empty \<and>
   status (load Map.empty ''t'' ''list_01'') \<noteq> 400 \<and>
   success (snd (save Map.empty ''t'' (Some ''list_01'') (Some (JObj []))))"
proof -
  have bad: "\<not> isValidId ''a b''"
    by (simp add: isValidId_def idChar_def)
  have good: "isValidId ''list_01''"
    by (simp add: isValidId_def idChar_def)
  have pay: "truthy (JObj [])"
    by simp
  show ?thesis
    using bad good pay
      sync_identifier_validation [of Map.empty "''t''" "''a b''" "JObj []" "Some (JObj [])"]
      sync_identifier_validation [of Map.empty "''t''" "''list_01''" "JObj []" None]
    by simp
qed




subsection \<open>Recurrence\<close>

lemma setDatePlus_Some:
  "setDate z (Some t) (map_option (\<lambda>g. g + n) (getDate z (Some t))) = TimeClip (addDays z t n)"
proof -
  let ?lt = "LocalTime z t"
  have "MakeDay z ?lt (Day ?lt - firstOfMonth z (Day ?lt) + 1 + n) = Day ?lt + n"
    by (simp add: MakeDay_def)
  moreover have "(?lt div msPerDay + n) * msPerDay + ?lt mod msPerDay = ?lt + n * msPerDay"
    by (simp add: algebra_simps)
  ultimately show ?thesis
    by (simp add: setDate_def getDate_def MakeDate_def Day_def TimeWithinDay_def addDays_def)
qed

lemma gregorian_examples:
  "dayOfMonth 0 = 1 \<and> dayOfMonth 19752 = 30 \<and> dayOfMonth 19782 = 29 \<and> dayOfMonth 19783 = 1 \<and>
   gregorian 19752 = 19723"
  by (simp add: dayOfMonth_def gregorian_def Let_def)







lemma parseInt_examples:
  "parseInt 5 = 5 \<and> parseInt (- 3) = - 3 \<and> parseInt 999999999999999868928 = 999999999999999868928 \<and>
   parseInt (10 ^ 21) = 1 \<and> parseInt (- (10 ^ 21)) = - 1 \<and>
   parseInt 1180591620717411303424 = 1 \<and> parseInt 99999999999999991611392 = 1 \<and>
   parseInt 89999999999999995805696 = 9 \<and> parseInt 2000000000000000000000 = 2"
  by (simp add: parseInt_def leadingDigit_def toNumber_def Let_def bits.simps digits10.simps)








subsection \<open>Completing an item\<close>

lemma items_setupReminder [simp]: "items (setupReminder r s it now) = items s"
  by (simp add: setupReminder_def showNotification_def setTimer_def Let_def split: option.splits)

lemma archive_setupReminder [simp]: "archive (setupReminder r s it now) = archive s"
  by (simp add: setupReminder_def showNotification_def setTimer_def Let_def split: option.splits)

lemma items_clearReminder [simp]: "items (clearReminder g s i) = items s"
  by (simp add: clearReminder_def clearInterval_def split: option.splits)

lemma archive_clearReminder [simp]: "archive (clearReminder g s i) = archive s"
  by (simp add: clearReminder_def clearInterval_def split: option.splits)

lemma checklists_clearReminder [simp]: "checklists (clearReminder g s i) = checklists s"
  by (simp add: clearReminder_def clearInterval_def split: option.splits)








text \<open>
  The successor is the object spread of the completed item: it takes the position value
  of that item as well.
\<close>

lemma successor_position_example:
  "map (\<lambda>i. (id' i, order i))
     (items (onToggleComplete
        (initialState\<lparr>items := [exampleItem ''a'' ''A'' (Some 1000) Daily 1 1,
                               exampleItem ''b'' ''B'' None FreqNone 1 2]\<rparr>) ''a'' 5000 ''n'' False))
   = [(''b'', 2), (''n'', 1)]"
  by (simp add: onToggleComplete_def rendered_def toggleItemComplete_def initialState_def
      exampleItem_def Let_def clearReminder_def setupReminder_def setTimer_def
      calculateNextDueDate_def newDate_def toISOString_def setDatePlus_Some TimeClip_def
      maxTime_def msPerDay_def addDays_def LocalTime_def UTC_def utcZone_def)

subsection \<open>Validation of the title\<close>

lemma trim_blank: "list_all isWhiteSpace t \<Longrightarrow> trim t = []"
proof -
  assume "list_all isWhiteSpace t"
  then have "dropWhile isWhiteSpace t = []"
    by (induction t) simp_all
  then have "trim t = rev (dropWhile isWhiteSpace (rev []))"
    by (simp only: trim_def)
  then show ?thesis
    by simp
qed

text \<open>
  Claim C7, amended. A submission whose title is empty or consists of white space only
  is dropped by the form's \<open>handleSubmit\<close>, the caller of \<open>createOrUpdateItem\<close>: the
  state is left exactly as it was, so no record is written or modified and no timer is
  armed. Nothing is raised (there is no validation error), and \<open>createOrUpdateItem\<close>
  itself does not look at the title.
\<close>

theorem handleSubmit_blank_title:
  assumes "list_all isWhiteSpace (titleF formData)"
  shows "handleSubmit s formData now newId = s"
  using assms by (simp add: handleSubmit_def trim_blank)

theorem handleSubmit_blank_title_witness:
  "list_all isWhiteSpace ''   '' \<and>
   handleSubmit initialState (exampleForm ''   '' (Some 1000) Daily 3) 0 ''i1'' = initialState"
proof -
  have blank: "list_all isWhiteSpace (titleF (exampleForm ''   '' (Some 1000) Daily 3))"
    by (simp add: exampleForm_def isWhiteSpace_def)
  show ?thesis
    using blank handleSubmit_blank_title [OF blank, of initialState 0 "''i1''"]
    by (simp add: exampleForm_def)
qed

text \<open>
  The claim as stated fails: \<open>createOrUpdateItem\<close> called with an empty title writes
  the item and arms its timer.
\<close>

theorem createOrUpdateItem_empty_title_counterexample:
  "map title (items (createOrUpdateItem (initialState\<lparr>selectedChecklist := ''c''\<rparr>)
      (exampleForm [] (Some 1000) Daily 3) 0 ''i1'')) = [[]] \<and>
   reminderIntervals (createOrUpdateItem (initialState\<lparr>selectedChecklist := ''c''\<rparr>)
      (exampleForm [] (Some 1000) Daily 3) 0 ''i1'') ''i1'' = Some 1"
  by (simp add: createOrUpdateItem_def initialState_def exampleForm_def Let_def
      setupReminder_def setTimer_def numOrNull_def numOr_def strOr_def maxOrder_def)

subsection \<open>Reminders\<close>







text \<open>
  The auto-dismiss does nothing for an item that the rendering of its \<open>setupReminder\<close>
  did not show yet, as it is for an item that was just created: the timer is gone and
  the item stays active.
\<close>

lemma autoDismiss_unseen:
  assumes "timers s h = Some (AutoDismissCallback r it, d)"
    and "id' it \<notin> set (map id' (seenItems r))"
  shows "fireTimer s h now newId confirmed = clearInterval s h"
proof -
  have "id' x \<noteq> id' it" if "x \<in> set (seenItems r)" for x
  proof
    assume "id' x = id' it"
    then have "id' it \<in> id' ` set (seenItems r)"
      using that by (metis image_eqI)
    then show False
      using assms(2) by simp
  qed
  then have "find (\<lambda>i. id' i = id' it) (seenItems r) = None"
    by (simp add: find_None_iff)
  then show ?thesis
    using assms(1) by (simp add: fireTimer_def Let_def)
qed

lemma autoDismiss_created_item:
  "map id'
     (items (fireAll
        (createOrUpdateItem (onAddItem initialState ''c'')
           ((exampleForm ''A'' (Some 1000) FreqNone 2)\<lparr>autoDismissAfterF := Some 1\<rparr>) 0 ''i1'')
        [(1, 1000, [], True), (2, 301000, [], True), (2, 601000, [], True),
         (3, 661000, ''i2'', True)]))
     = [''i1''] \<and>
   archive (fireAll
        (createOrUpdateItem (onAddItem initialState ''c'')
           ((exampleForm ''A'' (Some 1000) FreqNone 2)\<lparr>autoDismissAfterF := Some 1\<rparr>) 0 ''i1'')
        [(1, 1000, [], True), (2, 301000, [], True), (2, 601000, [], True),
         (3, 661000, ''i2'', True)])
     = [] \<and>
   timers (fireAll
        (createOrUpdateItem (onAddItem initialState ''c'')
           ((exampleForm ''A'' (Some 1000) FreqNone 2)\<lparr>autoDismissAfterF := Some 1\<rparr>) 0 ''i1'')
        [(1, 1000, [], True), (2, 301000, [], True), (2, 601000, [], True)]) 3
     \<noteq> None"
  by (simp add: createOrUpdateItem_def onAddItem_def initialState_def exampleForm_def Let_def
      rendered_def setupReminder_def setTimer_def numOrNull_def numOr_def strOr_def maxOrder_def
      fireTimer_def showNotification_def clearInterval_def)




subsection \<open>Timers of an edited item\<close>

text \<open>
  Claim C5 fails on an edit. After the edit of the item created in \<open>createdState\<close>,
  the timer armed for the first version (handle 1) is still live, while the registry
  \<open>reminderIntervals\<close> only knows the new one (handle 2). When timer 1 fires it shows a
  notification with the old title; deleting the item clears handle 2 only, and timer 1
  then notifies for an item that is gone.
\<close>

theorem edit_keeps_stale_timer:
  "map title (items editedState) = [''B''] \<and>
   timers editedState 1
     = Some (DueCallback (rendered (onAddItem initialState ''c''))
               (exampleItem ''i1'' ''A'' (Some 1000) FreqNone 1 1), 1000) \<and>
   reminderIntervals editedState ''i1'' = Some 2 \<and>
   map ntitle (notifications (fireTimer editedState 1 1000 [] False)) = [''Due: A''] \<and>
   items (deleteItem editedState ''i1'') = [] \<and>
   map ntitle (notifications (fireTimer (deleteItem editedState ''i1'') 1 1000 [] False))
     = [''Due: A'']"
  by (simp add: editedState_def createdState_def createOrUpdateItem_def onAddItem_def onEdit_def
      initialState_def exampleForm_def exampleItem_def Let_def setupReminder_def setTimer_def
      numOrNull_def numOr_def strOr_def maxOrder_def fireTimer_def showNotification_def
      clearInterval_def deleteItem_def clearReminder_def)

subsection \<open>Deleting a checklist\<close>

lemma clearReminder_registry:
  "reminderIntervals (clearReminder (reminderIntervals s) s i) = (reminderIntervals s)(i := None)"
  by (auto simp: clearReminder_def clearInterval_def split: option.splits)

lemma clearReminder_timers:
  "timers (clearReminder (reminderIntervals s) s i) h
   = (if reminderIntervals s i = Some h then None else timers s h)"
  by (auto simp: clearReminder_def clearInterval_def split: option.splits)

lemma foldl_clearReminder_records:
  "items (foldl (\<lambda>st i. clearReminder (reminderIntervals st) st (id' i)) s xs) = items s \<and>
   archive (foldl (\<lambda>st i. clearReminder (reminderIntervals st) st (id' i)) s xs) = archive s \<and>
   checklists (foldl (\<lambda>st i. clearReminder (reminderIntervals st) st (id' i)) s xs) = checklists s"
  by (induction xs arbitrary: s) simp_all

lemma foldl_clearReminder_cleared:
  fixes xs :: "item list"
  assumes "x \<in> set xs" and "reminderIntervals s (id' x) = Some h"
  shows "timers (foldl (\<lambda>st i. clearReminder (reminderIntervals st) st (id' i)) s xs) h = None \<and>
         reminderIntervals (foldl (\<lambda>st i. clearReminder (reminderIntervals st) st (id' i)) s xs) (id' x) = None"
  using assms
proof (induction xs arbitrary: s)
  case Nil
  then show ?case by simp
next
  case (Cons y ys)
  let ?s1 = "clearReminder (reminderIntervals s) s (id' y)"
  have dead_stays: "timers (foldl (\<lambda>st i. clearReminder (reminderIntervals st) st (id' i)) t zs) k = None"
    if "timers t k = None" for t k and zs :: "item list"
    using that by (induction zs arbitrary: t) (simp_all add: clearReminder_timers)
  have gone_stays: "reminderIntervals (foldl (\<lambda>st i. clearReminder (reminderIntervals st) st (id' i)) t zs) k = None"
    if "reminderIntervals t k = None" for t k and zs :: "item list"
    using that by (induction zs arbitrary: t) (simp_all add: clearReminder_registry)
  show ?case
  proof (cases "id' y = id' x")
    case True
    then have "timers ?s1 h = None" "reminderIntervals ?s1 (id' x) = None"
      using Cons.prems(2) by (simp_all add: clearReminder_timers clearReminder_registry)
    then show ?thesis
      using dead_stays [of ?s1 h ys] gone_stays [of ?s1 "id' x" ys] by simp
  next
    case False
    then have "x \<in> set ys" using Cons.prems(1) by auto
    moreover have "reminderIntervals ?s1 (id' x) = Some h"
      using False Cons.prems(2) by (simp add: clearReminder_registry)
    ultimately show ?thesis using Cons.IH [of ?s1] by simp
  qed
qed

lemma deleteChecklist_cascade:
  "checklists (deleteChecklist s cid True) = filter (\<lambda>cl. clId cl \<noteq> cid) (checklists s) \<and>
   items (deleteChecklist s cid True) = filter (\<lambda>i. checklistId i \<noteq> cid) (items s) \<and>
   archive (deleteChecklist s cid True) = filter (\<lambda>i. checklistId i \<noteq> cid) (archive s) \<and>
   (\<forall>x\<in>set (items s). \<forall>h. checklistId x = cid \<and> reminderIntervals s (id' x) = Some h \<longrightarrow>
      timers (deleteChecklist s cid True) h = None \<and>
      reminderIntervals (deleteChecklist s cid True) (id' x) = None)"
proof -
  let ?s1 = "s\<lparr>checklists := filter (\<lambda>cl. clId cl \<noteq> cid) (checklists s),
                 items := filter (\<lambda>i. checklistId i \<noteq> cid) (items s),
                 archive := filter (\<lambda>i. checklistId i \<noteq> cid) (archive s)\<rparr>"
  let ?xs = "filter (\<lambda>i. checklistId i = cid) (items s)"
  have eq: "deleteChecklist s cid True = foldl (\<lambda>st i. clearReminder (reminderIntervals st) st (id' i)) ?s1 ?xs"
    by (simp add: deleteChecklist_def Let_def)
  have "\<forall>x\<in>set (items s). \<forall>h. checklistId x = cid \<and> reminderIntervals s (id' x) = Some h \<longrightarrow>
      timers (deleteChecklist s cid True) h = None \<and>
      reminderIntervals (deleteChecklist s cid True) (id' x) = None"
  proof (intro ballI allI impI)
    fix x h assume x: "x \<in> set (items s)" and a: "checklistId x = cid \<and> reminderIntervals s (id' x) = Some h"
    have "x \<in> set ?xs" using x a by simp
    moreover have "reminderIntervals ?s1 (id' x) = Some h" using a by simp
    ultimately show "timers (deleteChecklist s cid True) h = None \<and>
      reminderIntervals (deleteChecklist s cid True) (id' x) = None"
      unfolding eq by (rule foldl_clearReminder_cleared)
  qed
  then show ?thesis
    using foldl_clearReminder_records [of ?s1 ?xs] by (simp add: eq)
qed

lemma deleteItem_clears_registered:
  "reminderIntervals s itemId = Some h \<Longrightarrow>
     timers (deleteItem s itemId) h = None \<and> reminderIntervals (deleteItem s itemId) itemId = None"
  by (auto simp: deleteItem_def clearReminder_def clearInterval_def)

text \<open>
  Claim C6 fails where an item of the checklist was edited before. Deleting checklist
  \<open>c\<close> in \<open>editedState\<close> removes the item and clears the registered timer
  (handle 2), but the timer armed before the edit (handle 1) stays live and shows a
  notification for the deleted item when it fires.
\<close>

theorem deleteChecklist_keeps_stale_timer:
  "items (deleteChecklist editedState ''c'' True) = [] \<and>
   timers (deleteChecklist editedState ''c'' True) 2 = None \<and>
   timers (deleteChecklist editedState ''c'' True) 1
     = Some (DueCallback (rendered (onAddItem initialState ''c''))
               (exampleItem ''i1'' ''A'' (Some 1000) FreqNone 1 1), 1000) \<and>
   map tag (notifications (fireTimer (deleteChecklist editedState ''c'' True) 1 1000 [] False))
     = [''i1'']"
  by (simp add: editedState_def createdState_def createOrUpdateItem_def onAddItem_def onEdit_def
      initialState_def exampleForm_def exampleItem_def Let_def setupReminder_def setTimer_def
      numOrNull_def numOr_def strOr_def maxOrder_def fireTimer_def showNotification_def
      clearInterval_def deleteChecklist_def clearReminder_def)

subsection \<open>Positions\<close>







lemma editingItem_setupReminder [simp]: "editingItem (setupReminder r s it now) = editingItem s"
  by (simp add: setupReminder_def showNotification_def setTimer_def Let_def split: option.splits)
lemma editingItem_clearReminder [simp]: "editingItem (clearReminder g s i) = editingItem s"
  by (simp add: clearReminder_def clearInterval_def split: option.splits)
































































end
